theory Spec2Isabelle
  imports Complex_Main
begin

section \<open>The file conversion service (server/python/convert\_files.py)\<close>

text \<open>
  The program unpacks a compressed tar archive into a working directory, walks over the
  unpacked entries, decodes each one according to its file name suffix, and appends the
  decoded records to one FASTA artifact. This theory embeds its functions one by one.

  What lies outside the program is a parameter of the model (the \<open>world\<close>): what the
  archive unpacks to, which paths are regular files, and what Biopython's parser yields on
  an opened file. What the program changes is a \<open>state\<close>: the directories it creates,
  the files it writes (the unpacked entries belong to the world), the log, the standard
  output. Conventions:
  \<^item> an exception is a value of type \<open>exn\<close>; a function that may raise returns
    \<open>exn + unit\<close> beside the state it leaves behind;
  \<^item> \<open>exn\<close> stands for the subclasses of Python's \<open>Exception\<close>; asynchronous
    interrupts are not modelled;
  \<^item> a parser is a lazy iterator: it yields records and then either stops or raises,
    so its outcome is the list of records yielded and the exception, if any, that ended it;
  \<^item> creating a directory, opening an entry for reading, opening the artifact for
    writing or appending, and writing to the artifact (a line of the header, or a record
    with \<open>SeqIO.write\<close>) may each raise: whether they do is a parameter of the world;
  \<^item> a path is the name of a file as the program writes it, and two paths name the same
    file when they are equal; which paths lie under a directory is for the file system to
    say, and a parameter of the world;
  \<^item> \<open>shutil.rmtree\<close> and the reading of the finished artifact (lines 172 to 178) are
    taken to succeed, and the unpacked entries are taken not to change during the run (the
    artifact is none of them).
\<close>

subsection \<open>Data\<close>

type_synonym path = string

datatype exn =
    ReadError
  | ValueError
  | UnicodeDecodeError
  | BadGzipFile
  | OSError
  | ZeroDivisionError
  | UnboundLocalError
  | Exception string

text \<open>
  A Biopython \<open>SeqRecord\<close>. \<open>phred_quality\<close> is the entry of that name in
  \<open>letter_annotations\<close>, \<open>None\<close> when the key is absent. The FASTQ decoder yields one
  score per residue, each the code of a character minus 33, hence a natural number.
\<close>

record seq_record =
  rec_id :: string
  rec_seq :: string
  rec_description :: string
  phred_quality :: "nat list option"

datatype fmt = Fastq | Fasta | Genbank | Embl | Swiss

text \<open>How a file was opened for reading: \<open>open(p, 'r')\<close> or \<open>gzip.open(p, 'rt')\<close>.\<close>

datatype handle = Plain_open path | Gzip_open path

text \<open>
  The description of a written record is a string; where the program formats the average
  quality into it (\<open>avg_qual=%.1f\<close>), the exact average is kept beside the original
  description instead of its decimal rendering.
\<close>

datatype descr = Description string | Avg_qual_description rat string

text \<open>
  The output artifact is a sequence of items: a comment line of the header, or a record
  serialised by \<open>SeqIO.write(_, _, "fasta")\<close> (identifier, description, residues).
\<close>

datatype out_item = Comment string | Fasta_text string descr string

datatype log_msg =
    Info_extracted path path
  | Error_extracting path exn
  | Info_converted nat path
  | Info_filtered nat
  | Error_fastq path exn
  | Info_detected fmt path
  | Warning_unknown_format path
  | Info_converted_generic nat path
  | Error_generic path exn
  | Info_starting path
  | Info_processing_fastq path
  | Info_processing_fasta path
  | Info_processing_genbank path
  | Info_attempting_text path
  | Info_skipping path
  | Info_completed
  | Info_output_file path
  | Info_total nat
  | Error_conversion_failed exn
  | Info_biopython_version
  | Error_biopython_missing
  | Error_input_not_found path
  | Error_input_suffix
  | Info_main_completed

text \<open>The lines \<open>main\<close> prints: \<open>SUCCESS: Converted i to o\<close> and \<open>ERROR: e\<close>.\<close>

datatype printed = Success path path | Error exn

text \<open>
  \<open>os_makedirs\<close> is the exception, if any, that creating a directory raises;
  \<open>open_read\<close> the one that opening an entry raises; \<open>open_output\<close> the one that
  opening the artifact raises; \<open>write_item\<close> the one that writing an item to the
  artifact raises, a comment with \<open>f.write\<close> or a record of the given identifier,
  description and residues with \<open>SeqIO.write\<close> (Biopython cannot serialise a record whose
  sequence is undefined, as the GenBank decoder gives for a record without sequence
  data). \<open>lies_under w d p\<close> says that the path \<open>p\<close> names a file or a directory
  below the directory \<open>d\<close>.
\<close>

record world =
  os_makedirs :: "path \<Rightarrow> exn option"
  tar_open :: "path \<Rightarrow> exn + string list"
  isfile :: "path \<Rightarrow> bool"
  open_read :: "handle \<Rightarrow> exn option"
  seqio_parse :: "handle \<Rightarrow> fmt \<Rightarrow> seq_record list \<times> exn option"
  open_output :: "path \<Rightarrow> exn option"
  write_item :: "out_item \<Rightarrow> exn option"
  lies_under :: "path \<Rightarrow> path \<Rightarrow> bool"
  date_output :: string
  input_exists :: "path \<Rightarrow> bool"
  bio_available :: bool

text \<open>
  \<open>parsed\<close> is the trace of the reads attempted so far (which entry the program opens,
  how, and the format it is about to parse it in): it is written, never read, by the
  program's model.
\<close>

record state =
  dirs :: "path set"
  files :: "path \<rightharpoonup> out_item list"
  logged :: "log_msg list"
  parsed :: "(handle \<times> fmt) list"
  stdout :: "printed list"

definition logger :: "log_msg \<Rightarrow> state \<Rightarrow> state" where
  "logger m s = s\<lparr>logged := logged s @ [m]\<rparr>"

definition trace_parse :: "handle \<Rightarrow> fmt \<Rightarrow> state \<Rightarrow> state" where
  "trace_parse h f s = s\<lparr>parsed := parsed s @ [(h, f)]\<rparr>"

text \<open>\<open>open(p, 'w')\<close> followed by writes: the file holds exactly the items written.\<close>

definition write_file :: "path \<Rightarrow> out_item list \<Rightarrow> state \<Rightarrow> state" where
  "write_file p items s = s\<lparr>files := (files s)(p \<mapsto> items)\<rparr>"

text \<open>\<open>open(p, 'a')\<close> followed by writes: the file is created when missing.\<close>

definition append_file :: "path \<Rightarrow> out_item list \<Rightarrow> state \<Rightarrow> state" where
  "append_file p items s =
     s\<lparr>files := (files s)(p \<mapsto> (case files s p of None \<Rightarrow> [] | Some old \<Rightarrow> old) @ items)\<rparr>"

text \<open>
  The items of a list written one after the other (the two lines of the header, lines
  126 and 127; the records of lines 96 to 98, 145 to 147 and 151 to 153): the items
  written before the first one that raises, and the exception.
\<close>

fun write_items :: "world \<Rightarrow> out_item list \<Rightarrow> out_item list \<times> exn option" where
  "write_items w [] = ([], None)"
| "write_items w (x # xs) =
     (case write_item w x of
        Some e \<Rightarrow> ([], Some e)
      | None \<Rightarrow> (case write_items w xs of (written, raised) \<Rightarrow> (x # written, raised)))"

definition makedirs :: "path \<Rightarrow> state \<Rightarrow> state" where
  "makedirs d s = s\<lparr>dirs := insert d (dirs s)\<rparr>"

text \<open>\<open>shutil.rmtree\<close> removes the directory with every directory and file under it.\<close>

definition rmtree :: "world \<Rightarrow> path \<Rightarrow> state \<Rightarrow> state" where
  "rmtree w d s =
     s\<lparr>dirs := Set.filter (\<lambda>p. p \<noteq> d \<and> \<not> lies_under w d p) (dirs s),
       files := (\<lambda>p. if lies_under w d p then None else files s p)\<rparr>"

subsection \<open>Strings and paths\<close>

text \<open>\<open>str.lower\<close> on the ASCII letters, which is all the suffix tests look at.\<close>

definition lower_char :: "char \<Rightarrow> char" where
  "lower_char c =
     (case map_of (zip ''ABCDEFGHIJKLMNOPQRSTUVWXYZ'' ''abcdefghijklmnopqrstuvwxyz'') c of
        Some d \<Rightarrow> d
      | None \<Rightarrow> c)"

definition lower :: "string \<Rightarrow> string" where
  "lower s = map lower_char s"

definition endswith :: "string \<Rightarrow> string \<Rightarrow> bool" where
  "endswith s suf = (length suf \<le> length s \<and> drop (length s - length suf) s = suf)"

text \<open>\<open>str.endswith\<close> with a tuple of suffixes.\<close>

definition endswith_any :: "string \<Rightarrow> string list \<Rightarrow> bool" where
  "endswith_any s sufs = list_ex (endswith s) sufs"

definition os_path_join :: "path \<Rightarrow> path \<Rightarrow> path" where
  "os_path_join a b =
     (if b \<noteq> [] \<and> hd b = CHR ''/'' then b
      else if a = [] \<or> last a = CHR ''/'' then a @ b
      else a @ ''/'' @ b)"

definition os_path_basename :: "path \<Rightarrow> string" where
  "os_path_basename p = rev (takeWhile (\<lambda>c. c \<noteq> CHR ''/'') (rev p))"

definition os_path_dirname :: "path \<Rightarrow> string" where
  "os_path_dirname p =
     (let head = rev (dropWhile (\<lambda>c. c \<noteq> CHR ''/'') (rev p))
      in if head \<noteq> [] \<and> \<not> list_all (\<lambda>c. c = CHR ''/'') head
         then rev (dropWhile (\<lambda>c. c = CHR ''/'') (rev head)) else head)"

subsection \<open>extract\_tar\_gz\<close>

definition extract_tar_gz :: "world \<Rightarrow> path \<Rightarrow> path \<Rightarrow> state \<Rightarrow> (exn + path list) \<times> state" where
  "extract_tar_gz w tar_path extract_to s =
     (case tar_open w tar_path of
        Inr names \<Rightarrow>
          (Inr (map (os_path_join extract_to) names), logger (Info_extracted tar_path extract_to) s)
      | Inl e \<Rightarrow> (Inl e, logger (Error_extracting tar_path e) s))"

subsection \<open>process\_fastq\_to\_fasta\<close>

text \<open>\<open>sum(qs) / len(qs)\<close>, for a non-empty list; the exact quotient.\<close>

definition avg_quality :: "nat list \<Rightarrow> rat" where
  "avg_quality qs = of_nat (sum_list qs) / of_nat (length qs)"

text \<open>
  The loop over the parsed records (lines 47 to 71). It carries the items written so far
  and the two counters, and stops at the first exception: the division of line 50 raises
  \<open>ZeroDivisionError\<close> on a record without residues, and \<open>SeqIO.write\<close> may raise.
\<close>

fun fastq_records ::
  "world \<Rightarrow> int \<Rightarrow> seq_record list \<Rightarrow> out_item list \<times> nat \<times> nat \<Rightarrow>
   exn option \<times> out_item list \<times> nat \<times> nat"
where
  "fastq_records w quality_threshold [] acc = (None, acc)"
| "fastq_records w quality_threshold (r # rs) (items, sequences_written, sequences_filtered) =
     (case phred_quality r of
        Some qs \<Rightarrow>
          if length qs = 0 then (Some ZeroDivisionError, items, sequences_written, sequences_filtered)
          else if of_int quality_threshold \<le> avg_quality qs
          then (let fasta_record =
                      Fasta_text (rec_id r) (Avg_qual_description (avg_quality qs) (rec_description r)) (rec_seq r)
                in case write_item w fasta_record of
                     Some e \<Rightarrow> (Some e, items, sequences_written, sequences_filtered)
                   | None \<Rightarrow>
                       fastq_records w quality_threshold rs
                         (items @ [fasta_record], sequences_written + 1, sequences_filtered))
          else fastq_records w quality_threshold rs (items, sequences_written, sequences_filtered + 1)
      | None \<Rightarrow>
          (let fasta_record = Fasta_text (rec_id r) (Description (rec_description r)) (rec_seq r)
           in case write_item w fasta_record of
                Some e \<Rightarrow> (Some e, items, sequences_written, sequences_filtered)
              | None \<Rightarrow>
                  fastq_records w quality_threshold rs
                    (items @ [fasta_record], sequences_written + 1, sequences_filtered)))"

definition default_quality_threshold :: int where
  "default_quality_threshold = 20"

text \<open>
  The entry is opened first (lines 40 to 43), then the artifact (line 46), then the
  records are parsed and written one by one. Whatever was written before an exception
  stays in the artifact; every exception is logged and raised again (lines 76 to 78).
\<close>

definition process_fastq_to_fasta ::
  "world \<Rightarrow> path \<Rightarrow> path \<Rightarrow> int \<Rightarrow> state \<Rightarrow> (exn + unit) \<times> state"
where
  "process_fastq_to_fasta w fastq_file output_fasta quality_threshold s =
     (let file_handle = (if endswith fastq_file ''.gz'' then Gzip_open fastq_file else Plain_open fastq_file);
          s0 = trace_parse file_handle Fastq s
      in case open_read w file_handle of
           Some e \<Rightarrow> (Inl e, logger (Error_fastq fastq_file e) s0)
         | None \<Rightarrow>
             (case open_output w output_fasta of
                Some e \<Rightarrow> (Inl e, logger (Error_fastq fastq_file e) s0)
              | None \<Rightarrow>
                  (let (records, failure) = seqio_parse w file_handle Fastq;
                       (raised, items, sequences_written, sequences_filtered) =
                          fastq_records w quality_threshold records ([], 0, 0);
                       s1 = append_file output_fasta items s0
                   in case (case raised of Some e \<Rightarrow> Some e | None \<Rightarrow> failure) of
                        Some e \<Rightarrow> (Inl e, logger (Error_fastq fastq_file e) s1)
                      | None \<Rightarrow>
                          (Inr (), logger (Info_filtered sequences_filtered)
                                     (logger (Info_converted sequences_written fastq_file) s1)))))"

subsection \<open>process\_generic\_sequences\<close>

definition formats_to_try :: "fmt list" where
  "formats_to_try = [Fasta, Genbank, Embl, Swiss]"

definition fasta_item :: "seq_record \<Rightarrow> out_item" where
  "fasta_item r = Fasta_text (rec_id r) (Description (rec_description r)) (rec_seq r)"

text \<open>
  The loop over the candidate formats (lines 88 to 101). The whole file is parsed into a
  list before anything is written. The handler of line 100 encloses the whole trial:
  an exception of any kind, raised by opening the entry, by parsing it, by opening the
  artifact or by writing a record, moves on to the next candidate, with the records
  written so far left in the artifact and counted. An empty list moves on as well;
  \<open>break\<close> is reached only when every record of a non-empty list has been written.
\<close>

fun try_formats :: "world \<Rightarrow> path \<Rightarrow> path \<Rightarrow> fmt list \<Rightarrow> nat \<Rightarrow> state \<Rightarrow> nat \<times> state" where
  "try_formats w input_file output_fasta [] sequences_written s = (sequences_written, s)"
| "try_formats w input_file output_fasta (fmt # fmts) sequences_written s =
     (let s1 = trace_parse (Plain_open input_file) fmt s
      in case open_read w (Plain_open input_file) of
           Some e \<Rightarrow> try_formats w input_file output_fasta fmts sequences_written s1
         | None \<Rightarrow>
             (case seqio_parse w (Plain_open input_file) fmt of
                (sequences, Some e) \<Rightarrow> try_formats w input_file output_fasta fmts sequences_written s1
              | (sequences, None) \<Rightarrow>
                  if sequences \<noteq> []
                  then (let s2 = logger (Info_detected fmt input_file) s1
                        in case open_output w output_fasta of
                             Some e \<Rightarrow> try_formats w input_file output_fasta fmts sequences_written s2
                           | None \<Rightarrow>
                               (case write_items w (map fasta_item sequences) of
                                  (written, Some e) \<Rightarrow>
                                    try_formats w input_file output_fasta fmts
                                      (sequences_written + length written)
                                      (append_file output_fasta written s2)
                                | (written, None) \<Rightarrow>
                                    (sequences_written + length written,
                                     append_file output_fasta written s2)))
                  else try_formats w input_file output_fasta fmts sequences_written s1))"

text \<open>
  Every statement of the body that can raise sits inside the handler of the loop, so the
  outer handler (lines 108 to 110) has nothing to catch and the function returns.
\<close>

definition process_generic_sequences :: "world \<Rightarrow> path \<Rightarrow> path \<Rightarrow> state \<Rightarrow> (exn + unit) \<times> state" where
  "process_generic_sequences w input_file output_fasta s =
     (let (sequences_written, s1) = try_formats w input_file output_fasta formats_to_try 0 s
      in if sequences_written = 0 then (Inr (), logger (Warning_unknown_format input_file) s1)
         else (Inr (), logger (Info_converted_generic sequences_written input_file) s1))"

subsection \<open>convert\_tar\_to\_fasta\<close>

definition fastq_suffixes :: "string list" where
  "fastq_suffixes = [''.fastq'', ''.fastq.gz'', ''.fq'', ''.fq.gz'']"

definition fasta_suffixes :: "string list" where
  "fasta_suffixes = [''.fasta'', ''.fasta.gz'', ''.fa'', ''.fa.gz'', ''.fas'']"

definition genbank_suffixes :: "string list" where
  "genbank_suffixes = [''.gb'', ''.gbk'', ''.genbank'']"

text \<open>
  The body of the loop over the unpacked entries (lines 133 to 164), for one entry:
  the exception it raises, if any, the running total and the state. The call of
  \<open>process_fastq_to_fasta\<close> passes two arguments, so its third takes the default.
\<close>

definition process_entry ::
  "world \<Rightarrow> path \<Rightarrow> path \<Rightarrow> nat \<Rightarrow> state \<Rightarrow> exn option \<times> nat \<times> state"
where
  "process_entry w output_fasta_path file_path total_sequences s =
     (if isfile w file_path then
        (let file_lower = lower file_path in
         if endswith_any file_lower fastq_suffixes then
           (case process_fastq_to_fasta w file_path output_fasta_path default_quality_threshold
                   (logger (Info_processing_fastq file_path) s) of
              (Inl e, s1) \<Rightarrow> (Some e, total_sequences, s1)
            | (Inr u, s1) \<Rightarrow> (None, total_sequences, s1))
         else if endswith_any file_lower fasta_suffixes then
           (let s1 = logger (Info_processing_fasta file_path) s;
                in_handle = (if endswith file_path ''.gz'' then Gzip_open file_path
                             else Plain_open file_path);
                s2 = trace_parse in_handle Fasta s1
            in case open_read w in_handle of
                 Some e \<Rightarrow> (Some e, total_sequences, s2)
               | None \<Rightarrow>
                   (case open_output w output_fasta_path of
                      Some e \<Rightarrow> (Some e, total_sequences, s2)
                    | None \<Rightarrow>
                        (let (records, failure) = seqio_parse w in_handle Fasta;
                             (written, raised) = write_items w (map fasta_item records)
                         in (case raised of Some e \<Rightarrow> Some e | None \<Rightarrow> failure,
                             total_sequences + length written,
                             append_file output_fasta_path written s2))))
         else if endswith_any file_lower genbank_suffixes then
           (case process_generic_sequences w file_path output_fasta_path
                   (logger (Info_processing_genbank file_path) s) of
              (Inl e, s1) \<Rightarrow> (Some e, total_sequences, s1)
            | (Inr u, s1) \<Rightarrow> (None, total_sequences, s1))
         else if endswith file_lower ''.txt'' then
           (case process_generic_sequences w file_path output_fasta_path
                   (logger (Info_attempting_text file_path) s) of
              (Inl e, s1) \<Rightarrow> (Some e, total_sequences, s1)
            | (Inr u, s1) \<Rightarrow> (None, total_sequences, s1))
         else (None, total_sequences, logger (Info_skipping file_path) s))
      else (None, total_sequences, s))"

text \<open>The loop itself (line 132): an exception leaves it at once.\<close>

fun process_files ::
  "world \<Rightarrow> path \<Rightarrow> path list \<Rightarrow> nat \<Rightarrow> state \<Rightarrow> exn option \<times> nat \<times> state"
where
  "process_files w output_fasta_path [] total_sequences s = (None, total_sequences, s)"
| "process_files w output_fasta_path (file_path # rest) total_sequences s =
     (case process_entry w output_fasta_path file_path total_sequences s of
        (Some e, total1, s1) \<Rightarrow> (Some e, total1, s1)
      | (None, total1, s1) \<Rightarrow> process_files w output_fasta_path rest total1 s1)"

definition extract_dir_of :: "path \<Rightarrow> path" where
  "extract_dir_of input_tar_path = input_tar_path @ ''_extracted''"

definition header :: "world \<Rightarrow> path \<Rightarrow> out_item list" where
  "header w input_tar_path =
     [Comment (''# Converted from '' @ os_path_basename input_tar_path),
      Comment (''# Conversion timestamp: '' @ date_output w)]"

text \<open>
  The number of lines of the artifact that start with the record marker (line 178). The
  lines of a text are what lies between its line breaks; a comment is one write of its
  text and a line break; a record is written as the marker and its title on one line
  (the writer replaces the line breaks of identifier and description by blanks),
  followed by the residues in lines of 60.
\<close>

fun text_lines :: "string \<Rightarrow> string list" where
  "text_lines [] = [[]]"
| "text_lines (c # cs) =
     (if c = CHR 0x0A \<or> c = CHR 0x0D then [] # text_lines cs
      else (case text_lines cs of [] \<Rightarrow> [[c]] | l # ls \<Rightarrow> (c # l) # ls))"

definition marker_lines :: "string \<Rightarrow> nat" where
  "marker_lines t = length (filter (\<lambda>l. take 1 l = ''>'') (text_lines t))"

definition residue_lines :: "string \<Rightarrow> string list" where
  "residue_lines q = map (\<lambda>k. take 60 (drop (60 * k) q)) [0 ..< (length q + 59) div 60]"

fun item_marker_lines :: "out_item \<Rightarrow> nat" where
  "item_marker_lines (Comment c) = marker_lines c"
| "item_marker_lines (Fasta_text i d q) = 1 + sum_list (map marker_lines (residue_lines q))"

definition seq_count :: "out_item list \<Rightarrow> nat" where
  "seq_count items = sum_list (map item_marker_lines items)"

text \<open>
  The locals of \<open>convert_tar_to_fasta\<close> that outlive the \<open>try\<close> block. \<open>import shutil\<close>
  (line 167) is a statement of the function body, so \<open>shutil\<close> is a local name of the
  function, bound only once that statement has run.
\<close>

record locals =
  shutil_bound :: bool
  total_sequences :: nat

text \<open>The \<open>try\<close> block (lines 115 to 182): the exception that left it, if any.\<close>

definition convert_try :: "world \<Rightarrow> path \<Rightarrow> path \<Rightarrow> state \<Rightarrow> exn option \<times> locals \<times> state" where
  "convert_try w input_tar_path output_fasta_path s =
     (let extract_dir = extract_dir_of input_tar_path
      in case os_makedirs w extract_dir of
           Some e \<Rightarrow> (Some e, \<lparr>shutil_bound = False, total_sequences = 0\<rparr>, s)
         | None \<Rightarrow>
             (let s1 = logger (Info_starting input_tar_path) (makedirs extract_dir s)
              in case extract_tar_gz w input_tar_path extract_dir s1 of
                   (Inl e, s2) \<Rightarrow> (Some e, \<lparr>shutil_bound = False, total_sequences = 0\<rparr>, s2)
                 | (Inr extracted_files, s2) \<Rightarrow>
                     (case open_output w output_fasta_path of
                        Some e \<Rightarrow> (Some e, \<lparr>shutil_bound = False, total_sequences = 0\<rparr>, s2)
                      | None \<Rightarrow>
                          (case write_items w (header w input_tar_path) of
                             (written, Some e) \<Rightarrow>
                               (Some e, \<lparr>shutil_bound = False, total_sequences = 0\<rparr>,
                                write_file output_fasta_path written s2)
                           | (written, None) \<Rightarrow>
                               (let s3 = write_file output_fasta_path written s2
                                in case process_files w output_fasta_path extracted_files 0 s3 of
                                     (Some e, n, s4) \<Rightarrow>
                                       (Some e, \<lparr>shutil_bound = False, total_sequences = n\<rparr>, s4)
                                   | (None, n, s4) \<Rightarrow>
                                       (let s5 = rmtree w extract_dir s4;
                                            l = \<lparr>shutil_bound = True, total_sequences = n\<rparr>
                                        in case files s5 output_fasta_path of
                                             Some items \<Rightarrow>
                                               (None, l,
                                                logger (Info_total (seq_count items))
                                                  (logger (Info_output_file output_fasta_path)
                                                     (logger Info_completed s5)))
                                           | None \<Rightarrow>
                                               (Some (Exception ''Output file was not created''),
                                                l, s5)))))))"

text \<open>
  The handler (lines 184 to 189). Reading \<open>shutil\<close> before line 167 has run raises
  \<open>UnboundLocalError\<close> inside the handler, which replaces the exception being handled.
\<close>

definition convert_except ::
  "world \<Rightarrow> path \<Rightarrow> exn \<Rightarrow> locals \<Rightarrow> state \<Rightarrow> (exn + unit) \<times> state"
where
  "convert_except w input_tar_path e l s =
     (let extract_dir = extract_dir_of input_tar_path;
          s1 = logger (Error_conversion_failed e) s
      in if extract_dir \<in> dirs s1
         then (if shutil_bound l then (Inl e, rmtree w extract_dir s1) else (Inl UnboundLocalError, s1))
         else (Inl e, s1))"

definition convert_tar_to_fasta :: "world \<Rightarrow> path \<Rightarrow> path \<Rightarrow> state \<Rightarrow> (exn + unit) \<times> state" where
  "convert_tar_to_fasta w input_tar_path output_fasta_path s =
     (case convert_try w input_tar_path output_fasta_path s of
        (None, l, s1) \<Rightarrow> (Inr (), s1)
      | (Some e, l, s1) \<Rightarrow> convert_except w input_tar_path e l s1)"

subsection \<open>main\<close>

record args =
  input_file :: path
  output_file :: path
  quality_threshold :: int

text \<open>
  The exit status of the process and the state it leaves. The directory of the artifact is
  created outside any handler (line 226): an exception there ends the process with
  status 1.
\<close>

definition main :: "world \<Rightarrow> args \<Rightarrow> state \<Rightarrow> nat \<times> state" where
  "main w a s =
     (if \<not> bio_available w then (1, logger Error_biopython_missing s)
      else
        (let s1 = logger Info_biopython_version s in
         if \<not> input_exists w (input_file a) then (1, logger (Error_input_not_found (input_file a)) s1)
         else if \<not> endswith_any (lower (input_file a)) [''.tar.gz'', ''.tgz'']
         then (1, logger Error_input_suffix s1)
         else
           (let output_dir = os_path_dirname (output_file a);
                create = (output_dir \<noteq> [] \<and> output_dir \<notin> dirs s1)
            in if create \<and> os_makedirs w output_dir \<noteq> None then (1, s1)
               else
                 (let s2 = (if create then makedirs output_dir s1 else s1)
                  in case convert_tar_to_fasta w (input_file a) (output_file a) s2 of
                       (Inr u, s3) \<Rightarrow>
                         (0, (logger Info_main_completed s3)
                               \<lparr>stdout := stdout s3 @ [Success (input_file a) (output_file a)]\<rparr>)
                     | (Inl e, s3) \<Rightarrow>
                         (1, (logger (Error_conversion_failed e) s3)
                               \<lparr>stdout := stdout s3 @ [Error e]\<rparr>)))))"

section \<open>Notions used in the statements\<close>

text \<open>
  How an entry is opened by \<open>process_fastq_to_fasta\<close> (lines 40 to 43) and by the FASTA
  branch of the loop (line 142): both test the suffix \<open>.gz\<close> on the path as it is, not
  on its lower-case form.
\<close>

definition reader :: "path \<Rightarrow> handle" where
  "reader p = (if endswith p ''.gz'' then Gzip_open p else Plain_open p)"


text \<open>A record on which the average of line 50 is defined: it has at least one score.\<close>

definition scored :: "seq_record \<Rightarrow> bool" where
  "scored r = (case phred_quality r of None \<Rightarrow> True | Some qs \<Rightarrow> qs \<noteq> [])"

text \<open>The acceptance test of line 52, and what is written for an accepted record.\<close>

definition passes :: "int \<Rightarrow> seq_record \<Rightarrow> bool" where
  "passes t r = (case phred_quality r of None \<Rightarrow> True | Some qs \<Rightarrow> of_int t \<le> avg_quality qs)"

definition written_item :: "seq_record \<Rightarrow> out_item" where
  "written_item r =
     (case phred_quality r of
        None \<Rightarrow> Fasta_text (rec_id r) (Description (rec_description r)) (rec_seq r)
      | Some qs \<Rightarrow>
          Fasta_text (rec_id r) (Avg_qual_description (avg_quality qs) (rec_description r)) (rec_seq r))"

text \<open>
  A candidate format yields on a file when the file opens and parsing the whole of it
  under that format ends without an exception and gives at least one record (lines 90
  to 92).
\<close>

definition yields :: "world \<Rightarrow> path \<Rightarrow> fmt \<Rightarrow> bool" where
  "yields w f g =
     (open_read w (Plain_open f) = None \<and>
      (case seqio_parse w (Plain_open f) g of (recs, failure) \<Rightarrow> failure = None \<and> recs \<noteq> []))"

text \<open>The items of a list can all be written: none makes the write raise.\<close>

definition writable :: "world \<Rightarrow> out_item list \<Rightarrow> bool" where
  "writable w items = list_all (\<lambda>x. write_item w x = None) items"

text \<open>
  An entry whose content fails to decode under the category its suffix assigns: a regular
  file with a reads-with-quality or an assembled-sequence suffix, on which the parser of
  that category raises.
\<close>

definition decode_fails :: "world \<Rightarrow> path \<Rightarrow> bool" where
  "decode_fails w f =
     (isfile w f \<and>
      (if endswith_any (lower f) fastq_suffixes
       then snd (seqio_parse w (reader f) Fastq) \<noteq> None
       else endswith_any (lower f) fasta_suffixes \<and> snd (seqio_parse w (reader f) Fasta) \<noteq> None))"

text \<open>A file that exists and starts with the given items.\<close>

definition begins_with :: "path \<Rightarrow> out_item list \<Rightarrow> state \<Rightarrow> bool" where
  "begins_with out h s = (\<exists>items. files s out = Some (h @ items))"

section \<open>Concrete inputs\<close>

text \<open>
  The file system of the concrete inputs: a path lies under a directory when it starts
  with the path of the directory and a separator.
\<close>

definition inside :: "path \<Rightarrow> path \<Rightarrow> bool" where
  "inside d p = (take (length d + 1) p = d @ ''/'')"

definition empty_state :: state where
  "empty_state = \<lparr>dirs = {}, files = Map.empty, logged = [], parsed = [], stdout = []\<rparr>"

text \<open>A read with the given identifier and scores, one residue per score.\<close>

definition read_of :: "string \<Rightarrow> nat list \<Rightarrow> seq_record" where
  "read_of i qs =
     \<lparr>rec_id = i, rec_seq = replicate (length qs) CHR ''A'', rec_description = i,
      phred_quality = Some qs\<rparr>"

text \<open>A record without scores, as the FASTA and GenBank decoders give.\<close>

definition plain_of :: "string \<Rightarrow> string \<Rightarrow> seq_record" where
  "plain_of i residues =
     \<lparr>rec_id = i, rec_seq = residues, rec_description = i, phred_quality = None\<rparr>"

text \<open>
  A world whose archives all unpack to the given names, every one a regular file that
  opens; directories can be created, the artifact opens and every item can be written.
\<close>

definition world_of ::
  "string list \<Rightarrow> (handle \<Rightarrow> fmt \<Rightarrow> seq_record list \<times> exn option) \<Rightarrow> world"
where
  "world_of names parse =
     \<lparr>os_makedirs = (\<lambda>p. None), tar_open = (\<lambda>p. Inr names), isfile = (\<lambda>p. True), open_read = (\<lambda>h. None),
      seqio_parse = parse, open_output = (\<lambda>p. None), write_item = (\<lambda>x. None),
      lies_under = inside, date_output = ''Thu Jan  1 00:00:00 UTC 1970'', input_exists = (\<lambda>p. True),
      bio_available = True\<rparr>"

text \<open>A world in which no archive can be opened.\<close>

definition broken_world :: world where
  "broken_world =
     \<lparr>os_makedirs = (\<lambda>p. None), tar_open = (\<lambda>p. Inl ReadError), isfile = (\<lambda>p. False), open_read = (\<lambda>h. Some OSError),
      seqio_parse = (\<lambda>h g. ([], None)), open_output = (\<lambda>p. None), write_item = (\<lambda>x. None),
      lies_under = inside, date_output = ''Thu Jan  1 00:00:00 UTC 1970'', input_exists = (\<lambda>p. True),
      bio_available = True\<rparr>"

text \<open>An archive with a corrupt reads entry followed by a valid assembled-sequence entry.\<close>

definition mixed_parse :: "handle \<Rightarrow> fmt \<Rightarrow> seq_record list \<times> exn option" where
  "mixed_parse h g =
     (if h = Plain_open ''in.tar.gz_extracted/good.fasta'' \<and> g = Fasta
      then ([plain_of ''contig1'' ''ACGT''], None)
      else ([], Some ValueError))"

definition mixed_world :: world where
  "mixed_world = world_of [''bad.fastq'', ''good.fasta''] mixed_parse"

text \<open>Ten reads: six with an average of at least 20 (one of them exactly 20), four below.\<close>

definition ten_reads :: "seq_record list" where
  "ten_reads =
     [read_of ''r1'' [30, 30], read_of ''r2'' [10, 12], read_of ''r3'' [20, 20],
      read_of ''r4'' [40], read_of ''r5'' [19, 20], read_of ''r6'' [25, 35, 30],
      read_of ''r7'' [0], read_of ''r8'' [21], read_of ''r9'' [19], read_of ''r10'' [38, 2, 20]]"

definition reads_parse :: "handle \<Rightarrow> fmt \<Rightarrow> seq_record list \<times> exn option" where
  "reads_parse h g =
     (if h = Plain_open ''in.tar.gz_extracted/reads.fastq'' \<and> g = Fastq then (ten_reads, None)
      else ([], Some ValueError))"

definition reads_world :: world where
  "reads_world = world_of [''reads.fastq''] reads_parse"

text \<open>One read of average 25.\<close>

definition q25_parse :: "handle \<Rightarrow> fmt \<Rightarrow> seq_record list \<times> exn option" where
  "q25_parse h g =
     (if h = Plain_open ''in.tar.gz_extracted/q25.fastq'' \<and> g = Fastq
      then ([read_of ''q25'' [20, 30]], None)
      else ([], Some ValueError))"

definition q25_world :: world where
  "q25_world = world_of [''q25.fastq''] q25_parse"

text \<open>
  A gzip-compressed FASTA entry: read through \<open>gzip.open\<close> it decodes to one record,
  read as plain text its bytes are not text.
\<close>

definition gz_parse :: "handle \<Rightarrow> fmt \<Rightarrow> seq_record list \<times> exn option" where
  "gz_parse h g =
     (case h of
        Gzip_open p \<Rightarrow> (if g = Fasta then ([plain_of ''contig1'' ''ACGT''], None) else ([], Some ValueError))
      | Plain_open p \<Rightarrow> ([], Some UnicodeDecodeError))"

definition upper_gz_world :: world where
  "upper_gz_world = world_of [''R.FASTA.GZ''] gz_parse"

definition lower_gz_world :: world where
  "lower_gz_world = world_of [''r.fasta.gz''] gz_parse"

text \<open>
  A text entry that is empty as FASTA, holds one record as GenBank and would hold two as
  EMBL; and a GenBank-named entry that is empty as FASTA and on which the three other
  candidate parsers raise.
\<close>

definition probe_parse :: "handle \<Rightarrow> fmt \<Rightarrow> seq_record list \<times> exn option" where
  "probe_parse h g =
     (if h = Plain_open ''in.tar.gz_extracted/notes.txt''
      then (case g of
              Fasta \<Rightarrow> ([], None)
            | Genbank \<Rightarrow> ([plain_of ''locus1'' ''ACGT''], None)
            | Embl \<Rightarrow> ([plain_of ''e1'' ''AC'', plain_of ''e2'' ''GT''], None)
            | _ \<Rightarrow> ([], Some ValueError))
      else if g = Fasta then ([], None)
      else ([], Some ValueError))"

definition probe_world :: world where
  "probe_world = world_of [''notes.txt'', ''junk.gb''] probe_parse"







section \<open>Properties of the functions\<close>

subsection \<open>The loop over reads\<close>


lemma fastq_records_scored:
  "\<forall>r \<in> set rs. scored r \<Longrightarrow> writable w (map written_item rs) \<Longrightarrow>
   fastq_records w t rs (items, n, m) =
     (None, items @ map written_item (filter (passes t) rs),
      n + length (filter (passes t) rs), m + length (filter (\<lambda>r. \<not> passes t r) rs))"
proof (induction rs arbitrary: items n m)
  case Nil
  then show ?case by simp
next
  case (Cons r rs)
  then have rest: "\<forall>r \<in> set rs. scored r" and r: "scored r"
    and ok: "writable w (map written_item rs)" and w: "write_item w (written_item r) = None"
    by (simp_all add: writable_def)
  show ?case
  proof (cases "phred_quality r")
    case None
    then show ?thesis using Cons.IH [OF rest ok] w by (simp add: passes_def written_item_def)
  next
    case (Some qs)
    with r have "qs \<noteq> []" by (simp add: scored_def)
    with Some show ?thesis using Cons.IH [OF rest ok] w by (simp add: passes_def written_item_def)
  qed
qed

lemma process_fastq_to_fasta_raises:
  assumes "snd (seqio_parse w (reader f) Fastq) = Some e"
  shows "isl (fst (process_fastq_to_fasta w f out t s))"
proof -
  obtain recs where p: "seqio_parse w (reader f) Fastq = (recs, Some e)"
    using assms by (cases "seqio_parse w (reader f) Fastq") auto
  obtain raised items n m where q: "fastq_records w t recs ([], 0, 0) = (raised, items, n, m)"
    by (cases "fastq_records w t recs ([], 0, 0)") auto
  show ?thesis
    by (cases raised)
       (simp_all add: process_fastq_to_fasta_def reader_def [symmetric] Let_def p q split: option.splits)
qed

subsection \<open>The candidate loop\<close>

lemma try_formats_none:
  "\<forall>g \<in> set fmts. \<not> yields w f g \<Longrightarrow>
   try_formats w f out fmts n s = (n, s\<lparr>parsed := parsed s @ map (Pair (Plain_open f)) fmts\<rparr>)"
proof (induction fmts arbitrary: s)
  case Nil
  then show ?case by simp
next
  case (Cons g fmts)
  then have rest: "\<forall>g \<in> set fmts. \<not> yields w f g" and g: "\<not> yields w f g" by simp_all
  have "try_formats w f out (g # fmts) n s = try_formats w f out fmts n (trace_parse (Plain_open f) g s)"
  proof (cases "open_read w (Plain_open f)")
    case None
    obtain recs failure where p: "seqio_parse w (Plain_open f) g = (recs, failure)"
      by (cases "seqio_parse w (Plain_open f) g") auto
    with g None show ?thesis by (cases failure) (auto simp: yields_def)
  next
    case (Some e)
    then show ?thesis by simp
  qed
  then show ?case using Cons.IH [OF rest, of "trace_parse (Plain_open f) g s"]
    by (simp add: trace_parse_def)
qed


lemma process_generic_sequences_returns:
  "fst (process_generic_sequences w f out s) = Inr ()"
  by (simp add: process_generic_sequences_def split: prod.splits)

subsection \<open>Entries and the loop over them\<close>

lemma endswith_last: "endswith s suf \<Longrightarrow> suf \<noteq> [] \<Longrightarrow> last s = last suf"
proof -
  assume a: "endswith s suf" and b: "suf \<noteq> []"
  then have "s = take (length s - length suf) s @ suf"
    by (metis append_take_drop_id endswith_def)
  then have "last s = last (take (length s - length suf) s @ suf)" by simp
  with b show ?thesis by (simp del: append_take_drop_id)
qed

lemma fastq_suffix_last: "endswith_any l fastq_suffixes \<Longrightarrow> last l \<in> {CHR ''q'', CHR ''z''}"
  by (auto simp: endswith_any_def fastq_suffixes_def dest!: endswith_last)

lemma fasta_suffix_last: "endswith_any l fasta_suffixes \<Longrightarrow> last l \<in> {CHR ''a'', CHR ''z'', CHR ''s''}"
  by (auto simp: endswith_any_def fasta_suffixes_def dest!: endswith_last)

lemma genbank_suffix_last: "endswith_any l genbank_suffixes \<Longrightarrow> last l \<in> {CHR ''b'', CHR ''k''}"
  by (auto simp: endswith_any_def genbank_suffixes_def dest!: endswith_last)

lemma txt_suffix_last: "endswith l ''.txt'' \<Longrightarrow> last l = CHR ''t''"
  by (auto dest!: endswith_last)

lemma process_entry_fastq:
  assumes "isfile w f" and "endswith_any (lower f) fastq_suffixes"
  shows "process_entry w out f n s =
     (case process_fastq_to_fasta w f out default_quality_threshold (logger (Info_processing_fastq f) s) of
        (Inl e, s1) \<Rightarrow> (Some e, n, s1) | (Inr u, s1) \<Rightarrow> (None, n, s1))"
  using assms by (simp add: process_entry_def)

lemma process_entry_fasta_raises:
  assumes "isfile w f" and "\<not> endswith_any (lower f) fastq_suffixes"
    and "endswith_any (lower f) fasta_suffixes"
    and "snd (seqio_parse w (reader f) Fasta) \<noteq> None"
  shows "fst (process_entry w out f n s) \<noteq> None"
proof -
  obtain recs e where p: "seqio_parse w (reader f) Fasta = (recs, Some e)"
    using assms(4) by (cases "seqio_parse w (reader f) Fasta") auto
  obtain written raised where q: "write_items w (map fasta_item recs) = (written, raised)"
    by (cases "write_items w (map fasta_item recs)") auto
  show ?thesis using assms(1-3)
    by (cases raised)
       (simp_all add: process_entry_def reader_def [symmetric] Let_def p q split: option.splits)
qed

lemma process_entry_generic:
  assumes "isfile w f" and "endswith_any (lower f) genbank_suffixes \<or> endswith (lower f) ''.txt''"
  shows "process_entry w out f n s =
     (None, n, snd (process_generic_sequences w f out
        (logger (if endswith_any (lower f) genbank_suffixes then Info_processing_genbank f
                 else Info_attempting_text f) s)))"
proof -
  have q: "\<not> endswith_any (lower f) fastq_suffixes"
    using assms(2) by (auto dest!: fastq_suffix_last genbank_suffix_last txt_suffix_last)
  have a: "\<not> endswith_any (lower f) fasta_suffixes"
    using assms(2) by (auto dest!: fasta_suffix_last genbank_suffix_last txt_suffix_last)
  have r: "\<And>s'. process_generic_sequences w f out s' = (Inr (), snd (process_generic_sequences w f out s'))"
    by (simp add: process_generic_sequences_def split: prod.splits)
  show ?thesis
  proof (cases "endswith_any (lower f) genbank_suffixes")
    case True
    then show ?thesis using assms(1) q a
      by (simp add: process_entry_def) (subst r, simp)
  next
    case False
    with assms(2) have "endswith (lower f) ''.txt''" by simp
    then show ?thesis using assms(1) q a False
      by (simp add: process_entry_def) (subst r, simp)
  qed
qed

lemma process_entry_decode_fails:
  assumes "decode_fails w f"
  shows "fst (process_entry w out f n s) \<noteq> None"
proof (cases "endswith_any (lower f) fastq_suffixes")
  case True
  with assms obtain e where "snd (seqio_parse w (reader f) Fastq) = Some e"
    by (auto simp: decode_fails_def)
  then have "isl (fst (process_fastq_to_fasta w f out default_quality_threshold (logger (Info_processing_fastq f) s)))"
    by (rule process_fastq_to_fasta_raises)
  moreover have "isfile w f" using assms by (simp add: decode_fails_def)
  ultimately show ?thesis using True
    by (auto simp: process_entry_fastq isl_def split: prod.splits sum.splits)
next
  case False
  with assms show ?thesis by (simp add: decode_fails_def process_entry_fasta_raises)
qed

lemma process_files_append:
  "process_files w out (pre @ post) n s =
     (case process_files w out pre n s of
        (Some e, n1, s1) \<Rightarrow> (Some e, n1, s1)
      | (None, n1, s1) \<Rightarrow> process_files w out post n1 s1)"
  by (induction pre arbitrary: n s) (auto split: prod.splits option.splits)

lemma process_files_stops:
  assumes "\<And>n s. fst (process_entry w out bad n s) \<noteq> None"
  shows "process_files w out (pre @ bad # post) n s = process_files w out (pre @ [bad]) n s"
proof -
  have step: "process_files w out (bad # post) n' s' = process_files w out [bad] n' s'" for n' s'
  proof (cases "process_entry w out bad n' s'")
    case (fields raised n1 s1)
    with assms [of n' s'] obtain e where "raised = Some e" by auto
    with fields show ?thesis by simp
  qed
  have "process_files w out (pre @ bad # post) n s =
        (case process_files w out pre n s of
           (Some e, n1, s1) \<Rightarrow> (Some e, n1, s1)
         | (None, n1, s1) \<Rightarrow> process_files w out (bad # post) n1 s1)"
    by (rule process_files_append)
  also have "\<dots> = (case process_files w out pre n s of
           (Some e, n1, s1) \<Rightarrow> (Some e, n1, s1)
         | (None, n1, s1) \<Rightarrow> process_files w out [bad] n1 s1)"
    by (simp only: step)
  also have "\<dots> = process_files w out (pre @ [bad]) n s"
    by (rule process_files_append [symmetric])
  finally show ?thesis .
qed

lemma process_files_raises:
  assumes "\<And>n s. fst (process_entry w out bad n s) \<noteq> None"
  shows "fst (process_files w out (pre @ bad # post) n s) \<noteq> None"
proof (cases "process_files w out pre n s")
  case (fields raised n1 s1)
  show ?thesis
  proof (cases raised)
    case None
    obtain r2 n2 s2 where b: "process_entry w out bad n1 s1 = (r2, n2, s2)"
      by (cases "process_entry w out bad n1 s1") auto
    with assms [of n1 s1] obtain e where "r2 = Some e" by auto
    with b None fields show ?thesis by (simp add: process_files_append)
  next
    case (Some e)
    with fields show ?thesis by (simp add: process_files_append)
  qed
qed

lemma convert_raises:
  "isl (fst (convert_tar_to_fasta w i out s)) \<longleftrightarrow> fst (convert_try w i out s) \<noteq> None"
  by (auto simp: convert_tar_to_fasta_def convert_except_def Let_def split: prod.splits option.splits)

lemma convert_try_extracted:
  assumes "tar_open w i = Inr names"
    and "\<And>s'. fst (process_files w out (map (os_path_join (extract_dir_of i)) names) 0 s') \<noteq> None"
  shows "fst (convert_try w i out s) \<noteq> None"
proof -
  obtain written raised where h: "write_items w (header w i) = (written, raised)"
    by (cases "write_items w (header w i)") auto
  let ?s3 = "write_file out written
               (logger (Info_extracted i (extract_dir_of i))
                 (logger (Info_starting i) (makedirs (extract_dir_of i) s)))"
  obtain r n1 s4 where p: "process_files w out (map (os_path_join (extract_dir_of i)) names) 0 ?s3 = (r, n1, s4)"
    by (cases "process_files w out (map (os_path_join (extract_dir_of i)) names) 0 ?s3") auto
  with assms(2) [of ?s3] obtain e where "r = Some e" by auto
  with p h assms(1) show ?thesis
    by (simp add: convert_try_def extract_tar_gz_def Let_def split: option.splits)
qed

subsection \<open>The fallback prober\<close>



lemma process_generic_none:
  assumes "\<forall>h \<in> set formats_to_try. \<not> yields w f h"
  shows "process_generic_sequences w f out s =
     (Inr (),
      s\<lparr>parsed := parsed s @ map (Pair (Plain_open f)) formats_to_try,
        logged := logged s @ [Warning_unknown_format f]\<rparr>)"
  using try_formats_none [OF assms, of out 0 s]
  by (simp add: process_generic_sequences_def logger_def)

subsection \<open>The artifact only grows after its header\<close>

lemma begins_with_logger [simp]: "begins_with out h (logger m s) = begins_with out h s"
  by (simp add: begins_with_def logger_def)

lemma begins_with_trace_parse [simp]: "begins_with out h (trace_parse r g s) = begins_with out h s"
  by (simp add: begins_with_def trace_parse_def)













subsection \<open>An artifact under the working directory\<close>

text \<open>
  When the artifact is a file of the working directory, the removal of that directory
  (line 168) removes the artifact too, and the run ends with the exception of line 182.
\<close>

lemma artifact_under_working_directory:
  "fst (convert_tar_to_fasta reads_world ''in.tar.gz'' ''in.tar.gz_extracted/out.fasta'' empty_state)
     = Inl (Exception ''Output file was not created'') \<and>
   files (snd (convert_tar_to_fasta reads_world ''in.tar.gz'' ''in.tar.gz_extracted/out.fasta'' empty_state))
     ''in.tar.gz_extracted/out.fasta'' = None"
  by code_simp

section \<open>The claims\<close>

subsection \<open>C1: a corrupt entry beside a valid one\<close>

text \<open>
  C1 says that a decode error on one entry is caught, counted, and followed by the next
  entry, so that the run ends in Done. On an archive with a corrupt reads entry followed
  by a valid assembled-sequence entry the run does not end in Done, and the artifact
  holds the header alone: the valid entry was never processed.
\<close>

theorem mixed_archive_not_done:
  "fst (convert_tar_to_fasta mixed_world ''in.tar.gz'' ''out.fasta'' empty_state) \<noteq> Inr () \<and>
   files (snd (convert_tar_to_fasta mixed_world ''in.tar.gz'' ''out.fasta'' empty_state)) ''out.fasta''
     = Some (header mixed_world ''in.tar.gz'')"
  by code_simp

text \<open>
  C1, amended. When an entry of the archive is a regular file with a reads-with-quality
  or an assembled-sequence suffix on which the parser of that category raises, the run
  ends with an exception, not in Done, and the entries after that one are never
  processed: the loop does on the whole list what it does on the list cut after the
  corrupt entry. No error count is kept.
\<close>

theorem decode_failure_aborts_run:
  assumes "tar_open w i = Inr names"
    and "map (os_path_join (extract_dir_of i)) names = pre @ bad # post"
    and "decode_fails w bad"
  shows "isl (fst (convert_tar_to_fasta w i out s)) \<and>
         process_files w out (pre @ bad # post) n s' = process_files w out (pre @ [bad]) n s'"
proof -
  have raises: "\<And>n s. fst (process_entry w out bad n s) \<noteq> None"
    using assms(3) by (rule process_entry_decode_fails)
  have "fst (convert_try w i out s) \<noteq> None"
    by (rule convert_try_extracted [OF assms(1)]) (simp add: assms(2) process_files_raises [OF raises])
  then have "isl (fst (convert_tar_to_fasta w i out s))" by (simp add: convert_raises)
  moreover have "process_files w out (pre @ bad # post) n s' = process_files w out (pre @ [bad]) n s'"
    by (rule process_files_stops [OF raises])
  ultimately show ?thesis by simp
qed

theorem decode_failure_aborts_run_witness:
  "tar_open mixed_world ''in.tar.gz'' = Inr [''bad.fastq'', ''good.fasta''] \<and>
   map (os_path_join (extract_dir_of ''in.tar.gz'')) [''bad.fastq'', ''good.fasta'']
     = [] @ ''in.tar.gz_extracted/bad.fastq'' # [''in.tar.gz_extracted/good.fasta''] \<and>
   decode_fails mixed_world ''in.tar.gz_extracted/bad.fastq'' \<and>
   isl (fst (convert_tar_to_fasta mixed_world ''in.tar.gz'' ''out.fasta'' empty_state)) \<and>
   process_files mixed_world ''out.fasta''
       ([] @ ''in.tar.gz_extracted/bad.fastq'' # [''in.tar.gz_extracted/good.fasta'']) 0 empty_state
     = process_files mixed_world ''out.fasta'' ([] @ [''in.tar.gz_extracted/bad.fastq'']) 0 empty_state"
proof -
  have a: "tar_open mixed_world ''in.tar.gz'' = Inr [''bad.fastq'', ''good.fasta'']" by code_simp
  have b: "map (os_path_join (extract_dir_of ''in.tar.gz'')) [''bad.fastq'', ''good.fasta'']
     = [] @ ''in.tar.gz_extracted/bad.fastq'' # [''in.tar.gz_extracted/good.fasta'']" by code_simp
  have c: "decode_fails mixed_world ''in.tar.gz_extracted/bad.fastq''" by code_simp
  from decode_failure_aborts_run [OF a b c, of "''out.fasta''" empty_state 0 empty_state]
  show ?thesis using a b c by simp
qed

subsection \<open>C2: the cleanup of the error path\<close>

text \<open>
  C2 says that a run never ends in an exception outside the taxonomy and that the cleanup
  of the error path raises nothing new. On an archive that cannot be opened, the handler
  finds the working directory in place and reads \<open>shutil\<close>, which line 167 has not
  bound yet: the run ends in \<open>UnboundLocalError\<close>, not in the extraction failure.
\<close>

theorem cleanup_raises_unbound_local:
  "fst (convert_tar_to_fasta broken_world ''in.tar.gz'' ''out.fasta'' empty_state)
     = Inl UnboundLocalError"
  by code_simp

subsection \<open>C3: the configured threshold\<close>

text \<open>
  C3 says that the filter uses the threshold given on the command line. \<open>main\<close> parses
  the option and calls \<open>convert_tar_to_fasta\<close> without it, which calls
  \<open>process_fastq_to_fasta\<close> with the default. With the option set to 30, a read of
  average 25 is written, although \<open>process_fastq_to_fasta\<close> called with 30 rejects it.
\<close>

theorem main_ignores_quality_threshold:
  "files (snd (main q25_world
                 \<lparr>input_file = ''in.tar.gz'', output_file = ''out.fasta'', quality_threshold = 30\<rparr>
                 empty_state)) ''out.fasta''
     = Some (header q25_world ''in.tar.gz''
             @ [Fasta_text ''q25'' (Avg_qual_description 25 ''q25'') ''AA'']) \<and>
   files (snd (process_fastq_to_fasta q25_world ''in.tar.gz_extracted/q25.fastq'' ''out.fasta'' 30
                 empty_state)) ''out.fasta''
     = Some []"
  by code_simp

subsection \<open>C4: the acceptance test\<close>

text \<open>
  C4 says that every record with quality scores is accepted exactly when the mean of its
  scores reaches the threshold, and that a threshold of 0 accepts them all. A read
  without residues has an empty list of scores; line 50 divides by its length, so the
  loop stops with \<open>ZeroDivisionError\<close> and the read is neither written nor counted,
  whatever the world.
\<close>

theorem zero_length_read_raises:
  "fastq_records w 0 [read_of ''empty'' []] ([], 0, 0) = (Some ZeroDivisionError, [], 0, 0)"
  by (simp add: read_of_def)

subsection \<open>C5: the fallback prober\<close>




subsection \<open>C6: removal of the working directory\<close>

text \<open>
  C6 says that the working directory is removed on every exit path. After a run that
  fails in extraction, and after a run that fails on an entry, the directory the run
  created is still there.
\<close>

theorem extract_dir_left_behind:
  "extract_dir_of ''in.tar.gz'' \<notin> dirs empty_state \<and>
   extract_dir_of ''in.tar.gz''
     \<in> dirs (snd (convert_tar_to_fasta broken_world ''in.tar.gz'' ''out.fasta'' empty_state)) \<and>
   extract_dir_of ''in.tar.gz''
     \<in> dirs (snd (convert_tar_to_fasta mixed_world ''in.tar.gz'' ''out.fasta'' empty_state))"
  by code_simp

subsection \<open>C7: the order of extraction and header\<close>




subsection \<open>C8: the case of the suffix\<close>

text \<open>
  C8 says that an entry is handled the same way whatever the case of its suffix. The
  category is chosen on the lower-case path, but gzip is chosen on the path as it is:
  \<open>R.FASTA.GZ\<close> is parsed as FASTA from a plain text handle and the run fails, while
  \<open>r.fasta.gz\<close> with the same content is read through gzip and converted.
\<close>

theorem upper_case_gz_read_as_text:
  "parsed (snd (convert_tar_to_fasta upper_gz_world ''in.tar.gz'' ''out.fasta'' empty_state))
     = [(Plain_open ''in.tar.gz_extracted/R.FASTA.GZ'', Fasta)] \<and>
   isl (fst (convert_tar_to_fasta upper_gz_world ''in.tar.gz'' ''out.fasta'' empty_state)) \<and>
   parsed (snd (convert_tar_to_fasta lower_gz_world ''in.tar.gz'' ''out.fasta'' empty_state))
     = [(Gzip_open ''in.tar.gz_extracted/r.fasta.gz'', Fasta)] \<and>
   fst (convert_tar_to_fasta lower_gz_world ''in.tar.gz'' ''out.fasta'' empty_state) = Inr ()"
  by code_simp

subsection \<open>C9: six reads of ten\<close>


subsection \<open>C10: unparsable content under every candidate\<close>

text \<open>
  C10. \<open>process_generic_sequences\<close> never raises, whatever the entry and the world:
  every exception of a trial, whatever its type, is caught by the handler of the
  candidate loop, so the outer handler is never entered. For a regular file with a
  GenBank or a text suffix on which no candidate yields (each candidate fails to open
  the file, raises while parsing it, or parses it to no record), the entry is reported
  with the unknown-format warning, no file is changed, no exception leaves the entry,
  and the loop over the entries goes on with the next one.
\<close>

theorem unparsable_generic_entry_is_unknown:
  "fst (process_generic_sequences w f out s) = Inr () \<and>
   (isfile w f \<and> (endswith_any (lower f) genbank_suffixes \<or> endswith (lower f) ''.txt'') \<and>
    (\<forall>g \<in> set formats_to_try. \<not> yields w f g) \<longrightarrow>
      process_entry w out f n s =
        (None, n,
         s\<lparr>parsed := parsed s @ map (Pair (Plain_open f)) formats_to_try,
           logged := logged s @
             [if endswith_any (lower f) genbank_suffixes then Info_processing_genbank f
              else Info_attempting_text f,
              Warning_unknown_format f]\<rparr>) \<and>
      files (snd (snd (process_entry w out f n s))) = files s \<and>
      process_files w out (f # rest) n s =
        process_files w out rest n (snd (snd (process_entry w out f n s))))"
proof (intro conjI impI)
  show "fst (process_generic_sequences w f out s) = Inr ()"
    by (rule process_generic_sequences_returns)
next
  assume h: "isfile w f \<and> (endswith_any (lower f) genbank_suffixes \<or> endswith (lower f) ''.txt'') \<and>
             (\<forall>g \<in> set formats_to_try. \<not> yields w f g)"
  then have regular: "isfile w f"
    and suffix: "endswith_any (lower f) genbank_suffixes \<or> endswith (lower f) ''.txt''"
    and none: "\<forall>g \<in> set formats_to_try. \<not> yields w f g" by simp_all
  have entry: "process_entry w out f n s =
           (None, n,
            s\<lparr>parsed := parsed s @ map (Pair (Plain_open f)) formats_to_try,
              logged := logged s @
                [if endswith_any (lower f) genbank_suffixes then Info_processing_genbank f
                 else Info_attempting_text f,
                 Warning_unknown_format f]\<rparr>)"
    by (simp add: process_entry_generic [OF regular suffix] process_generic_none [OF none] logger_def)
  show "process_entry w out f n s =
           (None, n,
            s\<lparr>parsed := parsed s @ map (Pair (Plain_open f)) formats_to_try,
              logged := logged s @
                [if endswith_any (lower f) genbank_suffixes then Info_processing_genbank f
                 else Info_attempting_text f,
                 Warning_unknown_format f]\<rparr>)"
    by (rule entry)
  show "files (snd (snd (process_entry w out f n s))) = files s" by (simp add: entry)
  show "process_files w out (f # rest) n s =
          process_files w out rest n (snd (snd (process_entry w out f n s)))"
    by (simp add: entry)
qed

text \<open>
  The entry \<open>junk.gb\<close>, which the FASTA parser reads to no record and on which the three
  other parsers raise \<open>ValueError\<close>.
\<close>

theorem unparsable_generic_entry_is_unknown_witness:
  "isfile probe_world ''in.tar.gz_extracted/junk.gb'' \<and>
   endswith_any (lower ''in.tar.gz_extracted/junk.gb'') genbank_suffixes \<and>
   seqio_parse probe_world (Plain_open ''in.tar.gz_extracted/junk.gb'') Fasta = ([], None) \<and>
   snd (seqio_parse probe_world (Plain_open ''in.tar.gz_extracted/junk.gb'') Genbank) = Some ValueError \<and>
   snd (seqio_parse probe_world (Plain_open ''in.tar.gz_extracted/junk.gb'') Embl) = Some ValueError \<and>
   snd (seqio_parse probe_world (Plain_open ''in.tar.gz_extracted/junk.gb'') Swiss) = Some ValueError \<and>
   list_all (\<lambda>g. \<not> yields probe_world ''in.tar.gz_extracted/junk.gb'' g) formats_to_try \<and>
   fst (process_generic_sequences probe_world ''in.tar.gz_extracted/junk.gb'' ''out.fasta'' empty_state) = Inr () \<and>
   process_entry probe_world ''out.fasta'' ''in.tar.gz_extracted/junk.gb'' 0 empty_state =
     (None, 0,
      empty_state\<lparr>parsed := map (Pair (Plain_open ''in.tar.gz_extracted/junk.gb'')) formats_to_try,
                  logged := [Info_processing_genbank ''in.tar.gz_extracted/junk.gb'',
                             Warning_unknown_format ''in.tar.gz_extracted/junk.gb'']\<rparr>) \<and>
   files (snd (snd (process_entry probe_world ''out.fasta'' ''in.tar.gz_extracted/junk.gb'' 0 empty_state)))
     = Map.empty"
proof -
  have a: "isfile probe_world ''in.tar.gz_extracted/junk.gb''" by code_simp
  have b: "endswith_any (lower ''in.tar.gz_extracted/junk.gb'') genbank_suffixes" by code_simp
  have c: "seqio_parse probe_world (Plain_open ''in.tar.gz_extracted/junk.gb'') Fasta = ([], None) \<and>
   snd (seqio_parse probe_world (Plain_open ''in.tar.gz_extracted/junk.gb'') Genbank) = Some ValueError \<and>
   snd (seqio_parse probe_world (Plain_open ''in.tar.gz_extracted/junk.gb'') Embl) = Some ValueError \<and>
   snd (seqio_parse probe_world (Plain_open ''in.tar.gz_extracted/junk.gb'') Swiss) = Some ValueError"
    by code_simp
  have d: "list_all (\<lambda>g. \<not> yields probe_world ''in.tar.gz_extracted/junk.gb'' g) formats_to_try"
    by code_simp
  then have d': "\<forall>g \<in> set formats_to_try. \<not> yields probe_world ''in.tar.gz_extracted/junk.gb'' g"
    by (simp add: list_all_iff)
  from unparsable_generic_entry_is_unknown
         [of probe_world "''in.tar.gz_extracted/junk.gb''" "''out.fasta''" empty_state 0 "[]"] a b d'
  show ?thesis using a b c d by (simp add: empty_state_def)
qed

end
